theory Spec2Isabelle
  imports Complex_Main "HOL-Library.Char_ord" "HOL-Library.List_Lexorder" "HOL-Library.Multiset"
begin

section \<open>The ingestion script \<^verbatim>\<open>scripts/add-to-database.py\<close>\<close>

text \<open>
  The script reads a list of station dictionaries from a JSON file and inserts them into, or
  updates, the table \<^verbatim>\<open>Stations\<close> that \<^verbatim>\<open>scripts/create-database.py\<close> creates:
  \<^verbatim>\<open>Stations(id INTEGER PRIMARY KEY AUTOINCREMENT, latitude REAL, longitude REAL,
  fuel_price REAL, price_date TEXT, address TEXT, UNIQUE(latitude, longitude))\<close>.

  Conventions of the embedding:
  \<^item> a Python exception is a value \<open>Inl e\<close> of the sum type \<open>py_error + 'a\<close>;
  \<^item> a dictionary key that may be absent is an \<open>option\<close> field, and subscripting an absent
    key is \<open>KeyError\<close>;
  \<^item> a finite Python float is represented by a rational number; \<open>nan\<close> and the infinities
    are not represented;
  \<^item> a string is a list of bytes, ordered lexicographically as Python orders \<open>str\<close> on
    ASCII text;
  \<^item> Python's \<open>float\<close> applied to a \<open>str\<close> is a library function that is taken as the
    parameter \<open>str_to_float\<close> of every definition (\<open>None\<close> is \<open>ValueError\<close>).
\<close>

subsection \<open>Values and exceptions\<close>

datatype py_error = KeyError | ValueError | IntegrityError

datatype jvalue = Num rat | Str string

definition getitem :: "'a option \<Rightarrow> py_error + 'a" where
  "getitem v = (case v of None \<Rightarrow> Inl KeyError | Some x \<Rightarrow> Inr x)"

definition py_float :: "(string \<Rightarrow> rat option) \<Rightarrow> jvalue \<Rightarrow> py_error + rat" where
  "py_float str_to_float v =
     (case v of
        Num x \<Rightarrow> Inr x
      | Str s \<Rightarrow> (case str_to_float s of None \<Rightarrow> Inl ValueError | Some x \<Rightarrow> Inr x))"

text \<open>
  \<open>round(x, 6)\<close>: the decimal with six fractional digits nearest to \<open>x\<close>, a tie going to
  the even last digit.
\<close>

definition round6 :: "rat \<Rightarrow> rat" where
  "round6 x =
     (let y = x * 1000000; n = \<lfloor>y\<rfloor>; f = y - of_int n
      in of_int (if f < 1 / 2 then n
                 else if 1 / 2 < f then n + 1
                 else if even n then n else n + 1) / 1000000)"

subsection \<open>The input records\<close>

record address_dict =
  street :: "string option"
  postal_code :: "string option"
  city :: "string option"
  country :: "string option"

record station =
  price :: "jvalue option"
  price_date :: "string option"
  address_compact :: "string option"
  address :: "address_dict option"
  latitude :: "jvalue option"
  longitude :: "jvalue option"

text \<open>Lines 96 to 102: the compact address if the key is there, the structured one otherwise.\<close>

definition resolve_address :: "station \<Rightarrow> py_error + string" where
  "resolve_address st =
     (case address_compact st of
        Some a \<Rightarrow> Inr a
      | None \<Rightarrow>
         (case getitem (address st) of Inl e \<Rightarrow> Inl e | Inr address_dict \<Rightarrow>
          case getitem (street address_dict) of Inl e \<Rightarrow> Inl e | Inr s \<Rightarrow>
          case getitem (postal_code address_dict) of Inl e \<Rightarrow> Inl e | Inr p \<Rightarrow>
          case getitem (city address_dict) of Inl e \<Rightarrow> Inl e | Inr c \<Rightarrow>
            Inr (case country address_dict of
                   None \<Rightarrow> s @ '', '' @ p @ '', '' @ c
                 | Some k \<Rightarrow> s @ '', '' @ p @ '', '' @ c @ '', '' @ k)))"

subsection \<open>Dates\<close>

text \<open>
  \<open>datetime.strptime(date, "%d/%m/%Y")\<close> matches the whole string against
  \<^verbatim>\<open>(3[0-1]|[1-2]\d|0[1-9]|[1-9]| [1-9])/(1[0-2]|0[1-9]|[1-9])/(\d\d\d\d)\<close>
  and then builds the date, which fails for year 0 and for a day the month does not have.
  No alternative of the day and the month contains a slash, so the three groups are the
  three pieces of the string between the slashes.
\<close>

definition is_digit :: "char \<Rightarrow> bool" where
  "is_digit c = (c \<in> set ''0123456789'')"

definition is_nonzero_digit :: "char \<Rightarrow> bool" where
  "is_nonzero_digit c = (c \<in> set ''123456789'')"

definition digit_value :: "char \<Rightarrow> nat" where
  "digit_value c = of_char c - 48"

fun split_on :: "char \<Rightarrow> string \<Rightarrow> string list" where
  "split_on sep [] = [[]]"
| "split_on sep (c # cs) =
     (if c = sep then [] # split_on sep cs
      else (case split_on sep cs of [] \<Rightarrow> [[c]] | w # ws \<Rightarrow> (c # w) # ws))"

definition match_d :: "string \<Rightarrow> nat option" where
  "match_d s =
     (case s of
        [a] \<Rightarrow> if is_nonzero_digit a then Some (digit_value a) else None
      | [a, b] \<Rightarrow>
          if a = CHR ''3'' \<and> (b = CHR ''0'' \<or> b = CHR ''1'') then Some (30 + digit_value b)
          else if (a = CHR ''1'' \<or> a = CHR ''2'') \<and> is_digit b
            then Some (10 * digit_value a + digit_value b)
          else if (a = CHR ''0'' \<or> a = CHR 0x20) \<and> is_nonzero_digit b then Some (digit_value b)
          else None
      | _ \<Rightarrow> None)"

definition match_m :: "string \<Rightarrow> nat option" where
  "match_m s =
     (case s of
        [a] \<Rightarrow> if is_nonzero_digit a then Some (digit_value a) else None
      | [a, b] \<Rightarrow>
          if a = CHR ''1'' \<and> (b = CHR ''0'' \<or> b = CHR ''1'' \<or> b = CHR ''2'')
            then Some (10 + digit_value b)
          else if a = CHR ''0'' \<and> is_nonzero_digit b then Some (digit_value b)
          else None
      | _ \<Rightarrow> None)"

definition match_Y :: "string \<Rightarrow> nat option" where
  "match_Y s =
     (case s of
        [a, b, c, d] \<Rightarrow>
          if is_digit a \<and> is_digit b \<and> is_digit c \<and> is_digit d
          then Some (1000 * digit_value a + 100 * digit_value b + 10 * digit_value c
                     + digit_value d)
          else None
      | _ \<Rightarrow> None)"

definition is_leap :: "nat \<Rightarrow> bool" where
  "is_leap y = (y mod 4 = 0 \<and> (y mod 100 \<noteq> 0 \<or> y mod 400 = 0))"

definition days_in_month :: "nat \<Rightarrow> nat \<Rightarrow> nat" where
  "days_in_month y m =
     (if m = 2 then (if is_leap y then 29 else 28)
      else if m = 4 \<or> m = 6 \<or> m = 9 \<or> m = 11 then 30 else 31)"

text \<open>The parsed date is the triple of year, month and day.\<close>

definition strptime :: "string \<Rightarrow> py_error + (nat \<times> nat \<times> nat)" where
  "strptime s =
     (case split_on CHR ''/'' s of
        [d, m, y] \<Rightarrow>
          (case match_d d of None \<Rightarrow> Inl ValueError | Some dd \<Rightarrow>
           case match_m m of None \<Rightarrow> Inl ValueError | Some mm \<Rightarrow>
           case match_Y y of None \<Rightarrow> Inl ValueError | Some yy \<Rightarrow>
             if yy = 0 \<or> days_in_month yy mm < dd then Inl ValueError
             else Inr (yy, mm, dd))
      | _ \<Rightarrow> Inl ValueError)"

fun zero_padded :: "nat \<Rightarrow> nat \<Rightarrow> string" where
  "zero_padded 0 n = []"
| "zero_padded (Suc w) n = zero_padded w (n div 10) @ [''0123456789'' ! (n mod 10)]"

text \<open>\<open>strftime("%Y-%m-%d")\<close>, the year written with four digits.\<close>

definition strftime :: "nat \<times> nat \<times> nat \<Rightarrow> string" where
  "strftime ymd =
     (case ymd of (y, m, d) \<Rightarrow>
        zero_padded 4 y @ ''-'' @ zero_padded 2 m @ ''-'' @ zero_padded 2 d)"

text \<open>Line 107.\<close>

definition normalize_date :: "string \<Rightarrow> py_error + string" where
  "normalize_date date =
     (case strptime date of Inl e \<Rightarrow> Inl e | Inr ymd \<Rightarrow> Inr (strftime ymd))"

subsection \<open>From a station dictionary to the values bound to the SQL statements\<close>

record observation =
  obs_latitude :: rat
  obs_longitude :: rat
  obs_price :: jvalue
  obs_date :: string
  obs_address :: string

text \<open>
  Lines 85 to 107 of the loop body, which do not touch the database. The result \<open>Inr None\<close>
  is the \<open>continue\<close> of line 92 (the entry is skipped), \<open>Inr (Some ob)\<close> the values the
  rest of the body works with.
\<close>

definition normalize :: "(string \<Rightarrow> rat option) \<Rightarrow> station \<Rightarrow> py_error + observation option" where
  "normalize str_to_float st =
     (case getitem (price st) of Inl e \<Rightarrow> Inl e | Inr p \<Rightarrow>
      case getitem (price_date st) of Inl e \<Rightarrow> Inl e | Inr date \<Rightarrow>
      if p = Str '''' then Inr None
      else
     (case py_float str_to_float p of Inl e \<Rightarrow> Inl e | Inr v \<Rightarrow>
      if v < 1 / 10 then Inr None
      else if date = '''' then Inr None
      else
     (case resolve_address st of Inl e \<Rightarrow> Inl e | Inr a \<Rightarrow>
      case getitem (latitude st) of Inl e \<Rightarrow> Inl e | Inr la \<Rightarrow>
      case py_float str_to_float la of Inl e \<Rightarrow> Inl e | Inr la' \<Rightarrow>
      case getitem (longitude st) of Inl e \<Rightarrow> Inl e | Inr lo \<Rightarrow>
      case py_float str_to_float lo of Inl e \<Rightarrow> Inl e | Inr lo' \<Rightarrow>
      case normalize_date date of Inl e \<Rightarrow> Inl e | Inr date' \<Rightarrow>
        Inr (Some \<lparr>obs_latitude = round6 la', obs_longitude = round6 lo', obs_price = p,
                   obs_date = date', obs_address = a\<rparr>))))"

subsection \<open>The table \<^verbatim>\<open>Stations\<close>\<close>

record stations_row =
  row_id :: nat
  row_latitude :: rat
  row_longitude :: rat
  fuel_price :: jvalue
  row_price_date :: string
  row_address :: string

text \<open>
  The database is the list of the rows of \<^verbatim>\<open>Stations\<close> and the largest id that
  \<^verbatim>\<open>AUTOINCREMENT\<close> has handed out (SQLite's \<^verbatim>\<open>sqlite_sequence\<close>).
\<close>

record database =
  Stations :: "stations_row list"
  sqlite_sequence :: nat

text \<open>The \<^verbatim>\<open>SELECT\<close> of line 110 followed by \<open>fetchone\<close>.\<close>

definition select_station :: "database \<Rightarrow> rat \<Rightarrow> rat \<Rightarrow> stations_row option" where
  "select_station db la lo =
     find (\<lambda>r. row_latitude r = la \<and> row_longitude r = lo) (Stations db)"

text \<open>
  The \<^verbatim>\<open>INSERT\<close> of line 118: the new row gets an id larger than every id in the table
  and every id handed out before; the \<^verbatim>\<open>UNIQUE\<close> constraint refuses a coordinate pair
  that is already in the table.
\<close>

definition next_id :: "database \<Rightarrow> nat" where
  "next_id db = Suc (fold max (map row_id (Stations db)) (sqlite_sequence db))"

definition new_row :: "database \<Rightarrow> observation \<Rightarrow> stations_row" where
  "new_row db ob =
     \<lparr>row_id = next_id db, row_latitude = obs_latitude ob, row_longitude = obs_longitude ob,
      fuel_price = obs_price ob, row_price_date = obs_date ob, row_address = obs_address ob\<rparr>"

definition insert_station :: "database \<Rightarrow> observation \<Rightarrow> py_error + database" where
  "insert_station db ob =
     (case select_station db (obs_latitude ob) (obs_longitude ob) of
        Some r \<Rightarrow> Inl IntegrityError
      | None \<Rightarrow>
          Inr \<lparr>Stations = Stations db @ [new_row db ob], sqlite_sequence = next_id db\<rparr>)"

text \<open>The \<^verbatim>\<open>UPDATE\<close> of line 136.\<close>

definition update_station :: "database \<Rightarrow> jvalue \<Rightarrow> string \<Rightarrow> nat \<Rightarrow> database" where
  "update_station db p date station_id =
     db\<lparr>Stations :=
          map (\<lambda>r. if row_id r = station_id then r\<lparr>fuel_price := p, row_price_date := date\<rparr>
                   else r)
              (Stations db)\<rparr>"

subsection \<open>The loop of \<open>update_database\<close>\<close>

datatype outcome = Added | Updated | Ignored

text \<open>Lines 110 to 144: what the body does with the database, and the counter it bumps.\<close>

definition upsert :: "database \<Rightarrow> observation \<Rightarrow> py_error + (database \<times> outcome)" where
  "upsert db ob =
     (case select_station db (obs_latitude ob) (obs_longitude ob) of
        None \<Rightarrow>
          (case insert_station db ob of Inl e \<Rightarrow> Inl e | Inr db' \<Rightarrow> Inr (db', Added))
      | Some row \<Rightarrow>
          if obs_date ob \<le> row_price_date row then Inr (db, Ignored)
          else Inr (update_station db (obs_price ob) (obs_date ob) (row_id row), Updated))"

text \<open>One entry of \<open>data\<close>: the database after it, and which counter it bumps.\<close>

definition process_station ::
  "(string \<Rightarrow> rat option) \<Rightarrow> database \<Rightarrow> station \<Rightarrow> py_error + (database \<times> outcome)" where
  "process_station str_to_float db st =
     (case normalize str_to_float st of
        Inl e \<Rightarrow> Inl e
      | Inr None \<Rightarrow> Inr (db, Ignored)
      | Inr (Some ob) \<Rightarrow> upsert db ob)"

text \<open>The state of the loop is the database and \<open>n_added\<close>, \<open>n_updated\<close>, \<open>n_ignored\<close>.\<close>

type_synonym loop_state = "database \<times> nat \<times> nat \<times> nat"

fun tally :: "outcome \<Rightarrow> nat \<times> nat \<times> nat \<Rightarrow> nat \<times> nat \<times> nat" where
  "tally Added (n_added, n_updated, n_ignored) = (n_added + 1, n_updated, n_ignored)"
| "tally Updated (n_added, n_updated, n_ignored) = (n_added, n_updated + 1, n_ignored)"
| "tally Ignored (n_added, n_updated, n_ignored) = (n_added, n_updated, n_ignored + 1)"

fun for_loop ::
  "(string \<Rightarrow> rat option) \<Rightarrow> loop_state \<Rightarrow> station list \<Rightarrow> py_error + loop_state" where
  "for_loop str_to_float s [] = Inr s"
| "for_loop str_to_float (db, n) (st # data) =
     (case process_station str_to_float db st of
        Inl e \<Rightarrow> Inl e
      | Inr (db', oc) \<Rightarrow> for_loop str_to_float (db', tally oc n) data)"

text \<open>
  \<open>update_database\<close> returns the three counters; the database in the result is the one that
  \<open>commit\<close> makes durable. An exception leaves the function before \<open>commit\<close>.
\<close>

definition update_database ::
  "(string \<Rightarrow> rat option) \<Rightarrow> database \<Rightarrow> station list \<Rightarrow> py_error + loop_state" where
  "update_database str_to_float db data = for_loop str_to_float (db, 0, 0, 0) data"

text \<open>
  One run of the script on one JSON file: the database that the next run finds. A run that
  raises ends before \<open>commit\<close>, so its changes are rolled back.
\<close>

definition run_script :: "(string \<Rightarrow> rat option) \<Rightarrow> database \<Rightarrow> station list \<Rightarrow> database" where
  "run_script str_to_float db data =
     (case update_database str_to_float db data of Inl e \<Rightarrow> db | Inr (db', n) \<Rightarrow> db')"

definition run_scripts ::
  "(string \<Rightarrow> rat option) \<Rightarrow> database \<Rightarrow> station list list \<Rightarrow> database" where
  "run_scripts str_to_float db batches = foldl (run_script str_to_float) db batches"

subsection \<open>Notions used to state the properties\<close>

text \<open>The coordinate pair of a row and of an observation, and the pair rounded again.\<close>

definition coords :: "stations_row \<Rightarrow> rat \<times> rat" where
  "coords r = (row_latitude r, row_longitude r)"

definition obs_coords :: "observation \<Rightarrow> rat \<times> rat" where
  "obs_coords ob = (obs_latitude ob, obs_longitude ob)"

definition rounded_coords :: "stations_row \<Rightarrow> rat \<times> rat" where
  "rounded_coords r = (round6 (row_latitude r), round6 (row_longitude r))"

text \<open>What an \<^verbatim>\<open>UPDATE\<close> of line 136 never writes.\<close>

definition frame :: "stations_row \<Rightarrow> nat \<times> rat \<times> rat \<times> string" where
  "frame r = (row_id r, row_latitude r, row_longitude r, row_address r)"

text \<open>The date stored for a coordinate pair, if the pair is in the table.\<close>

definition stored_date :: "database \<Rightarrow> rat \<times> rat \<Rightarrow> string option" where
  "stored_date db k = map_option row_price_date (select_station db (fst k) (snd k))"

text \<open>The sum of the three counters.\<close>

definition counter_sum :: "nat \<times> nat \<times> nat \<Rightarrow> nat" where
  "counter_sum n = (case n of (n_added, n_updated, n_ignored) \<Rightarrow> n_added + n_updated + n_ignored)"

text \<open>
  The observations that a run accepts: those it inserts or writes with an \<^verbatim>\<open>UPDATE\<close>,
  in the order of the run.
\<close>

fun accepted :: "(string \<Rightarrow> rat option) \<Rightarrow> database \<Rightarrow> station list \<Rightarrow> observation list" where
  "accepted str_to_float db [] = []"
| "accepted str_to_float db (st # data) =
     (case process_station str_to_float db st of
        Inl e \<Rightarrow> []
      | Inr (db', oc) \<Rightarrow>
          (case normalize str_to_float st of
             Inr (Some ob) \<Rightarrow> (if oc = Ignored then [] else [ob])
           | _ \<Rightarrow> []) @ accepted str_to_float db' data)"

text \<open>The same over several runs of the script; a run that raises commits nothing.\<close>

fun accepted_runs ::
  "(string \<Rightarrow> rat option) \<Rightarrow> database \<Rightarrow> station list list \<Rightarrow> observation list" where
  "accepted_runs str_to_float db [] = []"
| "accepted_runs str_to_float db (data # batches) =
     (case update_database str_to_float db data of
        Inl e \<Rightarrow> accepted_runs str_to_float db batches
      | Inr (db', n) \<Rightarrow>
          accepted str_to_float db data @ accepted_runs str_to_float db' batches)"

text \<open>The observations of a batch that reach the database, in the order of the batch.\<close>

fun observations :: "(string \<Rightarrow> rat option) \<Rightarrow> station list \<Rightarrow> observation list" where
  "observations str_to_float [] = []"
| "observations str_to_float (st # data) =
     (case normalize str_to_float st of
        Inr (Some ob) \<Rightarrow> ob # observations str_to_float data
      | _ \<Rightarrow> observations str_to_float data)"

subsection \<open>Concrete inputs\<close>

text \<open>
  For the concrete runs below, \<open>float\<close> on a string is the reading of a signed decimal
  literal without exponent (\<^verbatim>\<open>"0.05"\<close>, \<^verbatim>\<open>"-3."\<close>, \<^verbatim>\<open>".5"\<close>); any other string is
  refused there.
\<close>

definition digits_value :: "string \<Rightarrow> nat" where
  "digits_value s = foldl (\<lambda>n c. 10 * n + digit_value c) 0 s"

definition unsigned_decimal :: "string \<Rightarrow> rat option" where
  "unsigned_decimal s =
     (case split_on CHR ''.'' s of
        [i] \<Rightarrow>
          if i \<noteq> [] \<and> list_all is_digit i then Some (of_nat (digits_value i)) else None
      | [i, f] \<Rightarrow>
          if (i \<noteq> [] \<or> f \<noteq> []) \<and> list_all is_digit (i @ f)
          then Some (of_nat (digits_value (i @ f)) / 10 ^ length f)
          else None
      | _ \<Rightarrow> None)"

definition float_of_decimal :: "string \<Rightarrow> rat option" where
  "float_of_decimal s =
     (case s of
        [] \<Rightarrow> None
      | c # cs \<Rightarrow>
          if c = CHR ''-'' then map_option uminus (unsigned_decimal cs)
          else if c = CHR ''+'' then unsigned_decimal cs
          else unsigned_decimal s)"

definition empty_db :: database where
  "empty_db = \<lparr>Stations = [], sqlite_sequence = 0\<rparr>"

text \<open>The record of the first scenario of the specification, with a compact address.\<close>

definition station_1 :: station where
  "station_1 =
     \<lparr>price = Some (Num (9 / 10)), price_date = Some ''01/01/2024'',
      address_compact = Some ''Main St, 10'', address = None,
      latitude = Some (Num (451 / 10)), longitude = Some (Num (82 / 10))\<rparr>"

definition row_1 :: stations_row where
  "row_1 =
     \<lparr>row_id = 1, row_latitude = 451 / 10, row_longitude = 82 / 10, fuel_price = Num (9 / 10),
      row_price_date = ''2024-01-01'', row_address = ''Main St, 10''\<rparr>"

definition db_1 :: database where
  "db_1 = \<lparr>Stations = [row_1], sqlite_sequence = 1\<rparr>"

text \<open>The same place a day later, with another price and a structured address.\<close>

definition station_2 :: station where
  "station_2 =
     \<lparr>price = Some (Str ''1.1''), price_date = Some ''02/01/2024'',
      address_compact = None,
      address = Some \<lparr>street = Some ''Side St 2'', postal_code = Some ''01234'',
                       city = Some ''Laville'', country = Some ''Nowhere''\<rparr>,
      latitude = Some (Num (451 / 10)), longitude = Some (Num (82 / 10))\<rparr>"

text \<open>What the database binds for the two records, and the table after both.\<close>

definition obs_1 :: observation where
  "obs_1 =
     \<lparr>obs_latitude = 451 / 10, obs_longitude = 82 / 10, obs_price = Num (9 / 10),
      obs_date = ''2024-01-01'', obs_address = ''Main St, 10''\<rparr>"

definition obs_2 :: observation where
  "obs_2 =
     \<lparr>obs_latitude = 451 / 10, obs_longitude = 82 / 10, obs_price = Str ''1.1'',
      obs_date = ''2024-01-02'', obs_address = ''Side St 2, 01234, Laville, Nowhere''\<rparr>"

definition row_2 :: stations_row where
  "row_2 =
     \<lparr>row_id = 1, row_latitude = 451 / 10, row_longitude = 82 / 10, fuel_price = Str ''1.1'',
      row_price_date = ''2024-01-02'', row_address = ''Main St, 10''\<rparr>"

definition db_2 :: database where
  "db_2 = \<lparr>Stations = [row_2], sqlite_sequence = 1\<rparr>"

section \<open>Properties\<close>

subsection \<open>The loop and its counters\<close>

lemma counter_sum_tally: "counter_sum (tally oc n) = Suc (counter_sum n)"
  by (cases oc; cases n) (auto simp: counter_sum_def)

lemma for_loop_Cons:
  "for_loop pf (db, n) (st # data) = Inr s \<longleftrightarrow>
     (\<exists>db' oc. process_station pf db st = Inr (db', oc)
        \<and> for_loop pf (db', tally oc n) data = Inr s)"
  by (auto split: sum.splits)

lemma for_loop_counter_sum:
  "for_loop pf (db, n) data = Inr (db', n') \<Longrightarrow> counter_sum n' = counter_sum n + length data"
proof (induction data arbitrary: db n)
  case Nil
  then show ?case by simp
next
  case (Cons st data)
  from Cons.prems obtain db1 oc where
    "for_loop pf (db1, tally oc n) data = Inr (db', n')"
    unfolding for_loop_Cons by blast
  from Cons.IH [OF this] show ?case
    by (simp add: counter_sum_tally)
qed

lemma run_1: "update_database float_of_decimal empty_db [station_1] = Inr (db_1, 1, 0, 0)"
  by code_simp

text \<open>
  Claim C10. Whenever \<open>update_database\<close> returns normally, the three counters it returns add up
  to the number of entries of \<open>data\<close>: every entry bumps exactly one counter.
\<close>

theorem counters_sum_to_length:
  "update_database str_to_float db data = Inr (db', n_added, n_updated, n_ignored)
   \<Longrightarrow> n_added + n_updated + n_ignored = length data"
  using for_loop_counter_sum
    [of str_to_float db "(0, 0, 0)" data db' "(n_added, n_updated, n_ignored)"]
  by (simp add: update_database_def counter_sum_def)

theorem counters_sum_to_length_witness:
  "update_database float_of_decimal empty_db [station_1] = Inr (db_1, 1, 0, 0)
   \<and> (1::nat) + 0 + 0 = length [station_1]"
  using counters_sum_to_length [of float_of_decimal empty_db "[station_1]" db_1 1 0 0] run_1
  by simp

subsection \<open>The statements on the table\<close>

lemma upsert_eq:
  "upsert db ob =
     (case select_station db (obs_latitude ob) (obs_longitude ob) of
        None \<Rightarrow>
          Inr (\<lparr>Stations = Stations db @ [new_row db ob], sqlite_sequence = next_id db\<rparr>, Added)
      | Some row \<Rightarrow>
          if obs_date ob \<le> row_price_date row then Inr (db, Ignored)
          else Inr (update_station db (obs_price ob) (obs_date ob) (row_id row), Updated))"
  by (simp add: upsert_def insert_station_def split: option.splits)

lemma upsert_total: "\<exists>db' oc. upsert db ob = Inr (db', oc)"
  by (simp add: upsert_eq split: option.splits)

lemma select_None_iff:
  "select_station db la lo = None \<longleftrightarrow> (la, lo) \<notin> coords ` set (Stations db)"
  by (auto simp: select_station_def find_None_iff coords_def image_iff)

lemma select_SomeD:
  "select_station db la lo = Some row \<Longrightarrow> row \<in> set (Stations db) \<and> coords row = (la, lo)"
  by (auto simp: select_station_def find_Some_iff coords_def)

lemma select_unique:
  assumes "distinct (map coords (Stations db))" "row \<in> set (Stations db)" "coords row = (la, lo)"
  shows "select_station db la lo = Some row"
proof -
  from assms(2,3) have "(la, lo) \<in> coords ` set (Stations db)"
    by force
  then have "select_station db la lo \<noteq> None"
    by (simp add: select_None_iff)
  then obtain r where r: "select_station db la lo = Some r" by auto
  then have "r \<in> set (Stations db)" "coords r = coords row"
    using select_SomeD assms(3) by auto
  with assms(1,2) have "r = row"
    by (meson distinct_map inj_onD)
  with r show ?thesis by simp
qed

lemma normalize_SomeD:
  assumes "normalize pf st = Inr (Some ob)"
  shows "price st = Some (obs_price ob)"
    and "\<exists>date. price_date st = Some date \<and> date \<noteq> '''' \<and> normalize_date date = Inr (obs_date ob)"
    and "\<exists>la x. latitude st = Some la \<and> py_float pf la = Inr x \<and> obs_latitude ob = round6 x"
    and "\<exists>lo y. longitude st = Some lo \<and> py_float pf lo = Inr y \<and> obs_longitude ob = round6 y"
    and "resolve_address st = Inr (obs_address ob)"
    and "\<exists>v. py_float pf (obs_price ob) = Inr v \<and> \<not> v < 1 / 10"
  using assms
  by (auto simp: normalize_def getitem_def split: option.splits sum.splits if_splits)

lemma for_loop_step:
  "process_station pf db st = Inr (db', oc) \<Longrightarrow>
   for_loop pf (db, n) (st # data) = for_loop pf (db', tally oc n) data"
  by simp

lemma update_station_only:
  assumes "distinct (map row_id (Stations db))" "row \<in> set (Stations db)"
  shows "update_station db p d (row_id row) =
         db\<lparr>Stations := map (\<lambda>r. if r = row then r\<lparr>fuel_price := p, row_price_date := d\<rparr> else r)
                             (Stations db)\<rparr>"
proof -
  have "\<And>r. r \<in> set (Stations db) \<Longrightarrow> (row_id r = row_id row) = (r = row)"
    using assms by (meson distinct_map inj_onD)
  then show ?thesis
    by (simp add: update_station_def cong: map_cong)
qed

text \<open>
  Claim C1. Let an entry of \<open>data\<close> reach the database with the values \<open>ob\<close>: its price, its
  date in year-month-day form, its resolved address, and its latitude and longitude rounded to
  six decimals. If no row of the table has this coordinate pair, the loop goes on from the
  table extended by a row with these values and from \<open>n_added + 1\<close>. If a row has the pair
  and an older date, the loop goes on from the table in which the price and the date of that
  row are overwritten and from \<open>n_updated + 1\<close>. If a row has the pair and the date of the entry
  is not later than the stored one, the loop goes on from the same table and from
  \<open>n_ignored + 1\<close>. In the last two cases the table satisfies the constraints of its schema
  (distinct ids, distinct coordinate pairs), so that ``the row with the pair'' is one row.
\<close>

theorem upsert_decision:
  assumes "normalize str_to_float st = Inr (Some ob)"
  shows "(price st = Some (obs_price ob)
      \<and> (\<exists>date. price_date st = Some date \<and> normalize_date date = Inr (obs_date ob))
      \<and> (\<exists>la x. latitude st = Some la \<and> py_float str_to_float la = Inr x
            \<and> obs_latitude ob = round6 x)
      \<and> (\<exists>lo y. longitude st = Some lo \<and> py_float str_to_float lo = Inr y
            \<and> obs_longitude ob = round6 y)
      \<and> resolve_address st = Inr (obs_address ob))
    \<and> ((obs_latitude ob, obs_longitude ob) \<notin> coords ` set (Stations db) \<longrightarrow>
         for_loop str_to_float (db, n_added, n_updated, n_ignored) (st # data) =
         for_loop str_to_float
           (\<lparr>Stations = Stations db @
               [\<lparr>row_id = next_id db, row_latitude = obs_latitude ob,
                 row_longitude = obs_longitude ob, fuel_price = obs_price ob,
                 row_price_date = obs_date ob, row_address = obs_address ob\<rparr>],
             sqlite_sequence = next_id db\<rparr>, n_added + 1, n_updated, n_ignored) data)
    \<and> (\<forall>row. distinct (map row_id (Stations db)) \<and> distinct (map coords (Stations db))
           \<and> row \<in> set (Stations db) \<and> coords row = (obs_latitude ob, obs_longitude ob)
           \<and> row_price_date row < obs_date ob \<longrightarrow>
         for_loop str_to_float (db, n_added, n_updated, n_ignored) (st # data) =
         for_loop str_to_float
           (db\<lparr>Stations :=
                 map (\<lambda>r. if r = row
                          then r\<lparr>fuel_price := obs_price ob, row_price_date := obs_date ob\<rparr>
                          else r) (Stations db)\<rparr>,
            n_added, n_updated + 1, n_ignored) data)
    \<and> (\<forall>row. distinct (map coords (Stations db))
           \<and> row \<in> set (Stations db) \<and> coords row = (obs_latitude ob, obs_longitude ob)
           \<and> obs_date ob \<le> row_price_date row \<longrightarrow>
         for_loop str_to_float (db, n_added, n_updated, n_ignored) (st # data) =
         for_loop str_to_float (db, n_added, n_updated, n_ignored + 1) data)"
proof (intro conjI allI impI)
  show "price st = Some (obs_price ob)"
    "\<exists>date. price_date st = Some date \<and> normalize_date date = Inr (obs_date ob)"
    "\<exists>la x. latitude st = Some la \<and> py_float str_to_float la = Inr x
       \<and> obs_latitude ob = round6 x"
    "\<exists>lo y. longitude st = Some lo \<and> py_float str_to_float lo = Inr y
       \<and> obs_longitude ob = round6 y"
    "resolve_address st = Inr (obs_address ob)"
    using normalize_SomeD [OF assms] by blast+
next
  assume "(obs_latitude ob, obs_longitude ob) \<notin> coords ` set (Stations db)"
  then have "select_station db (obs_latitude ob) (obs_longitude ob) = None"
    by (simp add: select_None_iff)
  then have "process_station str_to_float db st =
      Inr (\<lparr>Stations = Stations db @ [new_row db ob], sqlite_sequence = next_id db\<rparr>, Added)"
    using assms by (simp add: process_station_def upsert_eq)
  from for_loop_step [OF this] show
    "for_loop str_to_float (db, n_added, n_updated, n_ignored) (st # data) =
     for_loop str_to_float
       (\<lparr>Stations = Stations db @
           [\<lparr>row_id = next_id db, row_latitude = obs_latitude ob,
             row_longitude = obs_longitude ob, fuel_price = obs_price ob,
             row_price_date = obs_date ob, row_address = obs_address ob\<rparr>],
         sqlite_sequence = next_id db\<rparr>, n_added + 1, n_updated, n_ignored) data"
    by (simp add: new_row_def)
next
  fix row
  assume a: "distinct (map row_id (Stations db)) \<and> distinct (map coords (Stations db))
     \<and> row \<in> set (Stations db) \<and> coords row = (obs_latitude ob, obs_longitude ob)
     \<and> row_price_date row < obs_date ob"
  then have "select_station db (obs_latitude ob) (obs_longitude ob) = Some row"
    by (simp add: select_unique)
  with a have "process_station str_to_float db st =
      Inr (update_station db (obs_price ob) (obs_date ob) (row_id row), Updated)"
    using assms by (simp add: process_station_def upsert_eq not_le)
  from for_loop_step [OF this] a show
    "for_loop str_to_float (db, n_added, n_updated, n_ignored) (st # data) =
     for_loop str_to_float
       (db\<lparr>Stations :=
             map (\<lambda>r. if r = row
                      then r\<lparr>fuel_price := obs_price ob, row_price_date := obs_date ob\<rparr>
                      else r) (Stations db)\<rparr>,
        n_added, n_updated + 1, n_ignored) data"
    by (simp add: update_station_only)
next
  fix row
  assume a: "distinct (map coords (Stations db))
     \<and> row \<in> set (Stations db) \<and> coords row = (obs_latitude ob, obs_longitude ob)
     \<and> obs_date ob \<le> row_price_date row"
  then have "select_station db (obs_latitude ob) (obs_longitude ob) = Some row"
    by (simp add: select_unique)
  with a have "process_station str_to_float db st = Inr (db, Ignored)"
    using assms by (simp add: process_station_def upsert_eq)
  from for_loop_step [OF this] show
    "for_loop str_to_float (db, n_added, n_updated, n_ignored) (st # data) =
     for_loop str_to_float (db, n_added, n_updated, n_ignored + 1) data"
    by simp
qed

lemma normalize_station_1: "normalize float_of_decimal station_1 = Inr (Some obs_1)"
  by code_simp

lemma normalize_station_2: "normalize float_of_decimal station_2 = Inr (Some obs_2)"
  by code_simp

theorem upsert_decision_witness:
  "for_loop float_of_decimal (empty_db, 0, 0, 0) [station_1] = Inr (db_1, 1, 0, 0)
   \<and> for_loop float_of_decimal (db_1, 0, 0, 0) [station_2] = Inr (db_2, 0, 1, 0)
   \<and> for_loop float_of_decimal (db_2, 0, 0, 0) [station_1] = Inr (db_2, 0, 0, 1)"
proof (intro conjI)
  have "(obs_latitude obs_1, obs_longitude obs_1) \<notin> coords ` set (Stations empty_db)"
    by (simp add: empty_db_def)
  with upsert_decision [OF normalize_station_1, of empty_db 0 0 0 "[]"]
  show "for_loop float_of_decimal (empty_db, 0, 0, 0) [station_1] = Inr (db_1, 1, 0, 0)"
    by (simp add: empty_db_def db_1_def row_1_def obs_1_def next_id_def)
next
  have "distinct (map row_id (Stations db_1)) \<and> distinct (map coords (Stations db_1))
      \<and> row_1 \<in> set (Stations db_1) \<and> coords row_1 = (obs_latitude obs_2, obs_longitude obs_2)
      \<and> row_price_date row_1 < obs_date obs_2"
    by (simp add: db_1_def row_1_def obs_2_def coords_def)
  with upsert_decision [OF normalize_station_2, of db_1 0 0 0 "[]"]
  have "for_loop float_of_decimal (db_1, 0, 0, 0) [station_2] =
        for_loop float_of_decimal
          (db_1\<lparr>Stations :=
             map (\<lambda>r. if r = row_1
                  then r\<lparr>fuel_price := obs_price obs_2, row_price_date := obs_date obs_2\<rparr>
                  else r) (Stations db_1)\<rparr>, 0, 0 + 1, 0) []"
    by blast
  then show "for_loop float_of_decimal (db_1, 0, 0, 0) [station_2] = Inr (db_2, 0, 1, 0)"
    by (simp add: db_1_def db_2_def row_1_def row_2_def obs_2_def)
next
  have "distinct (map coords (Stations db_2))
      \<and> row_2 \<in> set (Stations db_2) \<and> coords row_2 = (obs_latitude obs_1, obs_longitude obs_1)
      \<and> obs_date obs_1 \<le> row_price_date row_2"
    by (simp add: db_2_def row_2_def obs_1_def coords_def)
  with upsert_decision [OF normalize_station_1, of db_2 0 0 0 "[]"]
  have "for_loop float_of_decimal (db_2, 0, 0, 0) [station_1] =
        for_loop float_of_decimal (db_2, 0, 0, 0 + 1) []"
    by blast
  then show "for_loop float_of_decimal (db_2, 0, 0, 0) [station_1] = Inr (db_2, 0, 0, 1)"
    by simp
qed

end
